theory Spec2Isabelle
  imports Complex_Main "HOL-Library.Word" "HOL-Library.Signed_Division"
begin

section \<open>Serenity: slack resource observer and the tests' load generator\<close>

text \<open>
  A shallow embedding of \<^verbatim>\<open>src/observers/slack_resource.hpp\<close> and of the load
  generator header of the tests (\<^verbatim>\<open>SERENITY_TESTS_LOAD_GENERATOR_HPP\<close>).

  Conventions of the embedding:
  \<^item> \<^verbatim>\<open>int32_t\<close> is \<open>32 word\<close>, read as two's complement with \<open>sint\<close> and compared
    with \<open><s\<close>; \<^verbatim>\<open>++\<close> wraps around (in C++ the overflow is undefined).
  \<^item> \<^verbatim>\<open>double_t\<close> is an IEEE 754 binary64 number, modelled by the \<open>real\<close> it
    denotes. A sum of the load generator is rounded to the nearest double, ties to
    even (\<open>double_add\<close>); multiplying by 1 or -1 and converting an \<^verbatim>\<open>int32_t\<close> are
    exact. Infinities and NaN are not modelled: a sum beyond the largest double, an
    infinity in the program, is outside the model, and no statement below adds such
    values. The estimator and the filter, which are modelled from the spec, compute
    over the reals.
  \<^item> a member function that mutates its object takes the object and returns the new one.
\<close>

type_synonym int32 = "32 word"

subsection \<open>Double precision addition\<close>

text \<open>Rounding to the nearest integer, a tie going to the even one.\<close>

definition round_half_even :: "real \<Rightarrow> int" where
  "round_half_even y =
     (let f = \<lfloor>y\<rfloor>; d = y - real_of_int f
      in if d < 1 / 2 then f
         else if 1 / 2 < d then f + 1
         else if even f then f else f + 1)"

text \<open>
  The spacing of the doubles around \<open>x\<close>: with 53 bits of precision, \<open>2\<close> to the
  power of the exponent of \<open>x\<close> minus 52, the exponent being at least -1022 (below it
  the doubles are subnormal and evenly spaced).
\<close>

definition double_quantum :: "real \<Rightarrow> real" where
  "double_quantum x = 2 powi (max \<lfloor>log 2 \<bar>x\<bar>\<rfloor> (- 1022) - 52)"

definition round_double :: "real \<Rightarrow> real" where
  "round_double x =
     (if x = 0 then 0
      else real_of_int (round_half_even (x / double_quantum x)) * double_quantum x)"

text \<open>The sum of two doubles, as \<^verbatim>\<open>+\<close> and \<^verbatim>\<open>+=\<close> compute it.\<close>

definition double_add :: "real \<Rightarrow> real \<Rightarrow> real" where
  "double_add x y = round_double (x + y)"

subsection \<open>Noise generators\<close>

definition DEFAULT_TIME_WINDOW :: real where
  "DEFAULT_TIME_WINDOW = 1"

definition DEFAULT_START_TIMESTAMP :: real where
  "DEFAULT_START_TIMESTAMP = 34223425"

definition DEFAULT_MAX_NOISE :: real where
  "DEFAULT_MAX_NOISE = 50"

text \<open>\<^verbatim>\<open>ZeroNoise::generate\<close>: no state, always 0.\<close>

definition ZeroNoise_generate :: "int32 \<Rightarrow> real" where
  "ZeroNoise_generate iteration = 0"

text \<open>
  \<^verbatim>\<open>class SymetricNoiseGenerator\<close>: the public fields \<^verbatim>\<open>noiseModifier\<close>,
  \<^verbatim>\<open>maxNoise\<close> and the private fields \<^verbatim>\<open>sign\<close>, \<^verbatim>\<open>noise\<close>.
\<close>

record SymetricNoiseGenerator =
  noiseModifier :: real
  maxNoise :: real
  sign :: int32
  noise :: real

text \<open>
  The constructor \<^verbatim>\<open>SymetricNoiseGenerator(_maxNoise)\<close> with the default member
  initialisers \<^verbatim>\<open>noiseModifier = 2\<close>, \<^verbatim>\<open>sign = -1\<close>, \<^verbatim>\<open>noise = 0\<close>.
\<close>

definition SymetricNoiseGenerator_new :: "real \<Rightarrow> SymetricNoiseGenerator" where
  "SymetricNoiseGenerator_new maxNoise' =
     \<lparr>noiseModifier = 2, maxNoise = maxNoise', sign = - 1, noise = 0\<rparr>"

text \<open>
  \<^verbatim>\<open>SymetricNoiseGenerator::generate\<close>. \<^verbatim>\<open>iteration % 2\<close> truncates towards zero
  (\<open>smod\<close> on the signed reading); \<^verbatim>\<open>abs(noise)\<close> is the absolute value of the
  double; \<^verbatim>\<open>noise * sign\<close> converts the \<^verbatim>\<open>int32_t\<close> to a double.
\<close>

definition generate :: "int32 \<Rightarrow> SymetricNoiseGenerator \<Rightarrow> real \<times> SymetricNoiseGenerator" where
  "generate iteration g =
     (let g1 = g\<lparr>sign := sign g * (- 1)\<rparr>;
          g2 = (if sint iteration smod 2 = 0
                then (let g' = g1\<lparr>noise := double_add (noise g1) (noiseModifier g1)\<rparr>
                      in if \<bar>noise g'\<bar> \<ge> maxNoise g'
                         then g'\<lparr>noiseModifier := noiseModifier g' * (- 1)\<rparr>
                         else g')
                else g1)
      in (noise g2 * real_of_int (sint (sign g2)), g2))"

text \<open>
  Driving a generator with the consecutive iteration numbers \<open>1, 2, \<dots>, n\<close>:
  \<open>drive n g\<close> is the generator after these \<open>n\<close> calls, \<open>generated n g\<close> the value
  returned by the \<open>n\<close>-th call (\<open>n \<ge> 1\<close>).
\<close>

fun drive :: "nat \<Rightarrow> SymetricNoiseGenerator \<Rightarrow> SymetricNoiseGenerator" where
  "drive 0 g = g"
| "drive (Suc n) g = snd (generate (word_of_nat (Suc n)) (drive n g))"

fun generated :: "nat \<Rightarrow> SymetricNoiseGenerator \<Rightarrow> real" where
  "generated 0 g = 0"
| "generated (Suc n) g = fst (generate (word_of_nat (Suc n)) (drive n g))"

text \<open>\<^verbatim>\<open>NoiseGenerator*\<close>: the object behind the pointer, one of the two subclasses.\<close>

datatype NoiseGenerator = ZeroNoise | Symetric SymetricNoiseGenerator

fun NoiseGenerator_generate :: "int32 \<Rightarrow> NoiseGenerator \<Rightarrow> real \<times> NoiseGenerator" where
  "NoiseGenerator_generate iteration ZeroNoise = (ZeroNoise_generate iteration, ZeroNoise)"
| "NoiseGenerator_generate iteration (Symetric g) =
     (case generate iteration g of (v, g') \<Rightarrow> (v, Symetric g'))"

subsection \<open>Load generator\<close>

text \<open>
  \<^verbatim>\<open>struct LoadSample\<close>. The fields \<^verbatim>\<open>value\<close> and \<^verbatim>\<open>noise\<close> are named
  \<open>sample_value\<close> and \<open>sample_noise\<close> here (\<open>value\<close> is a command of Isabelle,
  \<open>noise\<close> a field of the generator above).
\<close>

record LoadSample =
  sample_value :: real
  sample_noise :: real
  timestamp :: real

definition noisy :: "LoadSample \<Rightarrow> real" where
  \<comment> \<open>\<^verbatim>\<open>LoadSample::operator()\<close>\<close>
  "noisy s = double_add (sample_value s) (sample_noise s)"

definition clearValue :: "LoadSample \<Rightarrow> real" where
  "clearValue s = sample_value s"

text \<open>
  \<^verbatim>\<open>class LoadGenerator\<close>. \<^verbatim>\<open>done\<close> is \<open>done_flag\<close> and the current sample
  \<^verbatim>\<open>i\<close> is \<open>i_sample\<close>; \<open>noiseGen\<close> holds the state of the generator the pointer
  refers to.
\<close>

record LoadGenerator =
  modifier :: real
  iteration :: int32
  modelFunction :: "real \<Rightarrow> real"
  noiseGen :: NoiseGenerator
  iterations :: int32
  done_flag :: bool
  i_sample :: LoadSample
  timeWindow :: real

text \<open>The four-argument constructor, and the three-argument one delegating to it.\<close>

definition LoadGenerator_from ::
  "(real \<Rightarrow> real) \<Rightarrow> NoiseGenerator \<Rightarrow> int32 \<Rightarrow> int32 \<Rightarrow> LoadGenerator" where
  "LoadGenerator_from modelFunction' noiseGen' iteration' iterations' =
     \<lparr>modifier = 0,
      iteration = iteration',
      modelFunction = modelFunction',
      noiseGen = noiseGen',
      iterations = iterations',
      done_flag = False,
      i_sample = \<lparr>sample_value = modelFunction' (real_of_int (sint iteration')),
                  sample_noise = 0,
                  timestamp = DEFAULT_START_TIMESTAMP\<rparr>,
      timeWindow = DEFAULT_TIME_WINDOW\<rparr>"

definition LoadGenerator_new ::
  "(real \<Rightarrow> real) \<Rightarrow> NoiseGenerator \<Rightarrow> int32 \<Rightarrow> LoadGenerator" where
  "LoadGenerator_new modelFunction' noiseGen' iterations' =
     LoadGenerator_from modelFunction' noiseGen' 0 iterations'"

definition end_gen :: "LoadGenerator \<Rightarrow> bool" where
  \<comment> \<open>\<^verbatim>\<open>LoadGenerator::end\<close> returns \<^verbatim>\<open>!done\<close>\<close>
  "end_gen g = (\<not> done_flag g)"

text \<open>\<^verbatim>\<open>LoadGenerator::operator++()\<close>, the pre-increment.\<close>

definition pre_increment :: "LoadGenerator \<Rightarrow> LoadGenerator" where
  "pre_increment g =
     (if done_flag g then g
      else
        let g1 = g\<lparr>iteration := iteration g + 1\<rparr> in
        if iterations g1 <s iteration g1 then g1\<lparr>done_flag := True\<rparr>
        else
          let v = double_add (modifier g1)
                    (modelFunction g1 (real_of_int (sint (iteration g1))));
              t = double_add (timestamp (i_sample g1)) (timeWindow g1);
              (n, ng) = NoiseGenerator_generate (iteration g1) (noiseGen g1)
          in g1\<lparr>i_sample := \<lparr>sample_value = v, sample_noise = n, timestamp = t\<rparr>,
                noiseGen := ng\<rparr>)"

text \<open>
  \<^verbatim>\<open>LoadGenerator::operator++(int)\<close>: the copy made before the increment, and the
  generator after it. The copy holds the same pointer to the noise generator, so it sees
  the noise generator as the increment leaves it.
\<close>

definition post_increment :: "LoadGenerator \<Rightarrow> LoadGenerator \<times> LoadGenerator" where
  "post_increment g = (g\<lparr>noiseGen := noiseGen (pre_increment g)\<rparr>, pre_increment g)"

text \<open>\<open>increments n g\<close>: the generator after \<open>n\<close> pre-increments.\<close>

fun increments :: "nat \<Rightarrow> LoadGenerator \<Rightarrow> LoadGenerator" where
  "increments 0 g = g"
| "increments (Suc n) g = pre_increment (increments n g)"

subsection \<open>Slack resource observer: what the header defines\<close>

text \<open>
  \<^verbatim>\<open>getDefaultRole\<close>. The process environment is an explicit parameter, a map from
  variable names to values; \<^verbatim>\<open>std::getenv\<close> returns a null pointer exactly when
  the variable is not set.
\<close>

definition getDefaultRole :: "(string \<rightharpoonup> string) \<Rightarrow> string" where
  "getDefaultRole env =
     (case env ''MESOS_DEFAULT_ROLE'' of Some v \<Rightarrow> v | None \<Rightarrow> ''*'')"

definition DEFAULT_MAX_OVERSUBSCRIPTION_FRACTION :: real where
  "DEFAULT_MAX_OVERSUBSCRIPTION_FRACTION = 0.8"

definition SLACK_EPSILON :: real where
  "SLACK_EPSILON = 0.001"

text \<open>Modelled from the spec: the resource kinds of the data model (section 3).\<close>

datatype ResourceKind = CPU | Memory | IO

text \<open>
  Modelled from the spec: the message type \<^verbatim>\<open>ResourceUsage_Executor\<close> (declared in
  \<^verbatim>\<open>mesos/mesos.hpp\<close>, not part of the sources) as the spec's ExecutorSnapshot: an
  executor id, the current usage and the allocation per resource kind.
\<close>

record ExecutorSnapshot =
  executorId :: string
  currentUsage :: "ResourceKind \<rightharpoonup> real"
  allocated :: "ResourceKind \<rightharpoonup> real"

text \<open>
  Modelled from the spec: the message type \<^verbatim>\<open>ResourceUsage\<close> as the spec's
  ResourceUsageReport: the snapshots of all executors of a host at one point in time and
  the host's capacity per resource kind.
\<close>

record ResourceUsageReport =
  executors :: "ExecutorSnapshot list"
  hostCapacity :: "ResourceKind \<rightharpoonup> real"

text \<open>
  \<^verbatim>\<open>class SlackResourceObserver\<close>. \<^verbatim>\<open>ExecutorSet\<close> (declared in
  \<^verbatim>\<open>serenity/executor_set.hpp\<close>, not part of the sources) holds at most one snapshot
  per executor id: a map from ids to snapshots.
\<close>

record SlackResourceObserver =
  previousSamples :: "string \<rightharpoonup> ExecutorSnapshot"
  maxOversubscriptionFraction :: real
  default_role :: string

text \<open>
  The constructors. The optional argument is the oversubscription fraction, with the
  default \<^verbatim>\<open>DEFAULT_MAX_OVERSUBSCRIPTION_FRACTION\<close>; both public constructors
  initialise the three fields in the same way.
\<close>

definition SlackResourceObserver_new ::
  "real option \<Rightarrow> (string \<rightharpoonup> string) \<Rightarrow> SlackResourceObserver" where
  "SlackResourceObserver_new fraction env =
     \<lparr>previousSamples = Map.empty,
      maxOversubscriptionFraction =
        (case fraction of None \<Rightarrow> DEFAULT_MAX_OVERSUBSCRIPTION_FRACTION | Some f \<Rightarrow> f),
      default_role = getDefaultRole env\<rparr>"

subsection \<open>Slack resource observer: the estimator\<close>

text \<open>
  The header declares \<^verbatim>\<open>consume\<close> and \<^verbatim>\<open>CalculateCpuSlack\<close>; their bodies
  (\<^verbatim>\<open>slack_resource.cpp\<close>) are not part of the sources. The steps of the estimate
  follow section 4.3 of the spec and are written for any resource kind. The class counts
  one kind only: its documentation says that it only counts CPU slack, the only slack
  calculation it declares is \<^verbatim>\<open>CalculateCpuSlack\<close>, returning one number, and
  \<^verbatim>\<open>maxOversubscriptionFraction\<close> is documented as a fraction of the agent's CPU
  resources. So \<open>consume\<close> runs the estimate for the CPU kind.
\<close>

text \<open>Modelled from the spec: the severity of a contention flag (none, mild, severe).\<close>

datatype Severity = NoContention | Mild | Severe

text \<open>Modelled from the spec: the ContentionFlag of the data model (section 3).\<close>

record ContentionFlag =
  flagExecutorId :: string
  metricKind :: ResourceKind
  severity :: Severity
  windowStart :: real
  windowEnd :: real

text \<open>Modelled from the spec: the ResourceEstimate of the data model (section 3).\<close>

record ResourceEstimate =
  resourceKind :: ResourceKind
  estimate :: real
  isRevocable :: bool

text \<open>Modelled from the spec: the error of the estimator (sections 4.3 and 7).\<close>

datatype EstimatorError = MissingCapacity

text \<open>
  Modelled from the spec: \<open>slack = allocated - currentUsage\<close> of the current snapshot,
  per resource kind. There is no slack value when the snapshot has no allocation or no
  usage of the kind. The spec's formula does not read the previous snapshot.
\<close>

definition CalculateSlack ::
  "ResourceKind \<Rightarrow> ExecutorSnapshot \<Rightarrow> ExecutorSnapshot \<Rightarrow> real option" where
  "CalculateSlack kind prev current =
     (case allocated current kind of
        None \<Rightarrow> None
      | Some a \<Rightarrow> (case currentUsage current kind of
                     None \<Rightarrow> None
                   | Some u \<Rightarrow> Some (a - u)))"


text \<open>
  Modelled from the spec: a flag of severity severe for the executor and the resource
  kind, among the flags of the current window.
\<close>

definition severelyContended :: "ContentionFlag list \<Rightarrow> string \<Rightarrow> ResourceKind \<Rightarrow> bool" where
  "severelyContended flags eid kind =
     list_ex (\<lambda>f. flagExecutorId f = eid \<and> metricKind f = kind \<and> severity f = Severe) flags"

text \<open>
  Modelled from the spec: the contribution of one executor to the slack of a resource
  kind: excluded (zero) under severe contention, otherwise the slack with negative
  values clamped to zero; an executor without a slack value contributes nothing.
\<close>

definition contribution ::
  "ContentionFlag list \<Rightarrow> ResourceKind \<Rightarrow> ExecutorSnapshot \<Rightarrow> ExecutorSnapshot \<Rightarrow> real" where
  "contribution flags kind prev current =
     (if severelyContended flags (executorId current) kind then 0
      else case CalculateSlack kind prev current of
             None \<Rightarrow> 0
           | Some slack \<Rightarrow> max 0 slack)"

text \<open>
  Modelled from the spec: the raw shares of a resource kind, one for each executor of
  the report that also has a previous snapshot, in the order of the report.
\<close>

fun rawShares ::
  "(string \<rightharpoonup> ExecutorSnapshot) \<Rightarrow> ContentionFlag list \<Rightarrow> ResourceKind
   \<Rightarrow> ExecutorSnapshot list \<Rightarrow> (string \<times> real) list" where
  "rawShares previous flags kind [] = []"
| "rawShares previous flags kind (e # es) =
     (case previous (executorId e) of
        None \<Rightarrow> rawShares previous flags kind es
      | Some prev \<Rightarrow>
          (executorId e, contribution flags kind prev e) # rawShares previous flags kind es)"

text \<open>Modelled from the spec: the sum of the shares over all executors.\<close>

definition totalSlack :: "(string \<times> real) list \<Rightarrow> real" where
  "totalSlack shares = sum_list (map snd shares)"

text \<open>
  Modelled from the spec: the cap on the total,
  \<open>maxOversubscriptionFraction * hostCapacity\<close> of the resource kind.
\<close>

definition slackCap :: "SlackResourceObserver \<Rightarrow> real \<Rightarrow> real" where
  "slackCap obs capacity = maxOversubscriptionFraction obs * capacity"

text \<open>
  Modelled from the spec: the proportional scaling of the shares when the raw sum exceeds
  the cap. A share of zero stays zero (section 9 of the spec), so nothing is divided by
  a raw sum of zero.
\<close>

definition scaleShares :: "real \<Rightarrow> (string \<times> real) list \<Rightarrow> (string \<times> real) list" where
  "scaleShares cap shares =
     (if cap < totalSlack shares
      then map (\<lambda>(eid, share).
                  (eid, if share = 0 then 0 else share * (cap / totalSlack shares))) shares
      else shares)"

text \<open>Modelled from the spec: the capped total, the sum of the scaled shares.\<close>

definition cappedTotal :: "real \<Rightarrow> (string \<times> real) list \<Rightarrow> real" where
  "cappedTotal cap shares = totalSlack (scaleShares cap shares)"

text \<open>Modelled from the spec: a final total below \<open>SLACK_EPSILON\<close> is not emitted.\<close>

definition emitSlack :: "ResourceKind \<Rightarrow> real \<Rightarrow> ResourceEstimate set" where
  "emitSlack kind slack =
     (if slack < SLACK_EPSILON then {}
      else {\<lparr>resourceKind = kind, estimate = slack, isRevocable = True\<rparr>})"

text \<open>
  Modelled from the spec: some executor of the report has an allocation of the kind
  (the condition under which an unknown capacity is an error).
\<close>

definition referencesKind :: "ResourceKind \<Rightarrow> ExecutorSnapshot list \<Rightarrow> bool" where
  "referencesKind kind es = list_ex (\<lambda>e. allocated e kind \<noteq> None) es"

text \<open>
  Modelled from the spec: the raw shares of a report for a resource kind, against the
  history the observer holds.
\<close>

definition kindShares ::
  "ContentionFlag list \<Rightarrow> ResourceKind \<Rightarrow> ResourceUsageReport \<Rightarrow> SlackResourceObserver
   \<Rightarrow> (string \<times> real) list" where
  "kindShares flags kind usage obs =
     rawShares (previousSamples obs) flags kind (executors usage)"

text \<open>Modelled from the spec: the raw shares of the kind the observer counts, CPU.\<close>

definition sharesOf ::
  "ContentionFlag list \<Rightarrow> ResourceUsageReport \<Rightarrow> SlackResourceObserver
   \<Rightarrow> (string \<times> real) list" where
  "sharesOf flags usage obs = kindShares flags CPU usage obs"

text \<open>
  Modelled from the spec: the estimate of one resource kind: the shares are summed, capped
  and scaled, and the total is emitted unless it is below \<open>SLACK_EPSILON\<close>. An unknown
  capacity is \<open>MissingCapacity\<close> when an executor has an allocation of the kind.
\<close>

definition estimateKind ::
  "ContentionFlag list \<Rightarrow> ResourceUsageReport \<Rightarrow> SlackResourceObserver \<Rightarrow> ResourceKind
   \<Rightarrow> EstimatorError + ResourceEstimate set" where
  "estimateKind flags usage obs kind =
     (case hostCapacity usage kind of
        None \<Rightarrow> if referencesKind kind (executors usage) then Inl MissingCapacity else Inr {}
      | Some capacity \<Rightarrow>
          Inr (emitSlack kind
                 (cappedTotal (slackCap obs capacity) (kindShares flags kind usage obs))))"

text \<open>
  Modelled from the spec: the history kept for the next report, the snapshots of the
  current report by executor id; executors absent from the report are dropped.
\<close>

definition snapshotsOf :: "ExecutorSnapshot list \<Rightarrow> (string \<rightharpoonup> ExecutorSnapshot)" where
  "snapshotsOf es = map_of (map (\<lambda>e. (executorId e, e)) es)"

text \<open>
  Modelled from the spec: the body of \<^verbatim>\<open>consume\<close>. The result is the estimate of
  the CPU kind, handed to the next stage; the observer returned has the current report
  as its history.
\<close>

definition consume ::
  "ContentionFlag list \<Rightarrow> ResourceUsageReport \<Rightarrow> SlackResourceObserver
   \<Rightarrow> (EstimatorError + ResourceEstimate set) \<times> SlackResourceObserver" where
  "consume flags usage obs =
     (estimateKind flags usage obs CPU,
      obs\<lparr>previousSamples := snapshotsOf (executors usage)\<rparr>)"

subsection \<open>Moving average filter\<close>

text \<open>
  Modelled from the spec: the moving average filter (\<^verbatim>\<open>filters/moving_average.cpp\<close>
  and \<^verbatim>\<open>filters/moving_average.hpp\<close> are named by the build file and are not part
  of the sources), following sections 3 and 4.1 of the spec.
\<close>

text \<open>Modelled from the spec: the UsageSample of the data model.\<close>

record UsageSample =
  sampleKind :: ResourceKind
  sampleExecutorId :: string
  sampleValue :: real
  sampleTime :: real

text \<open>Modelled from the spec: the SmoothedValue of the data model.\<close>

record SmoothedValue =
  smoothed :: real
  smoothedTime :: real

text \<open>Modelled from the spec: the error of the filter.\<close>

datatype FilterError = OutOfOrderSample

text \<open>
  Modelled from the spec: one window per key, oldest sample first, bounded by the
  configured window size.
\<close>

record MovingAverageFilter =
  windowSize :: nat
  windows :: "ResourceKind \<times> string \<rightharpoonup> UsageSample list"

text \<open>Modelled from the spec: the window of a key; a key not seen yet has none.\<close>

definition windowOf :: "MovingAverageFilter \<Rightarrow> ResourceKind \<times> string \<Rightarrow> UsageSample list" where
  "windowOf f key = (case windows f key of None \<Rightarrow> [] | Some w \<Rightarrow> w)"

text \<open>Modelled from the spec: the arithmetic mean over the window.\<close>

definition mean :: "UsageSample list \<Rightarrow> real" where
  "mean w = sum_list (map sampleValue w) / real (length w)"

text \<open>
  Modelled from the spec: insertion at the end, evicting the oldest sample when the
  window exceeds its capacity.
\<close>

definition insertSample :: "nat \<Rightarrow> UsageSample list \<Rightarrow> UsageSample \<Rightarrow> UsageSample list" where
  "insertSample capacity w s =
     (if capacity < length (w @ [s]) then tl (w @ [s]) else w @ [s])"

text \<open>
  Modelled from the spec: \<^verbatim>\<open>consume\<close> of the filter. A sample older than the most
  recent one of its key's window is rejected; otherwise it is inserted, the oldest sample
  is evicted when the window exceeds its capacity, and the mean of the window is emitted
  with the sample's timestamp.
\<close>

definition filterConsume ::
  "UsageSample \<Rightarrow> MovingAverageFilter \<Rightarrow> (FilterError + SmoothedValue) \<times> MovingAverageFilter" where
  "filterConsume s f =
     (let key = (sampleKind s, sampleExecutorId s);
          w = windowOf f key
      in if w \<noteq> [] \<and> sampleTime s < sampleTime (last w)
         then (Inl OutOfOrderSample, f)
         else
           let w' = insertSample (windowSize f) w s
           in (Inr \<lparr>smoothed = mean w', smoothedTime = sampleTime s\<rparr>,
               f\<lparr>windows := (windows f)(key \<mapsto> w')\<rparr>))"

subsection \<open>Example inputs\<close>

text \<open>
  The executor of the spec's scenario (section 8): allocated 4 CPUs, using 1 and then
  1.5; here it also has 4 units of memory allocated and uses 1.
\<close>

definition executorE :: "real \<Rightarrow> ExecutorSnapshot" where
  "executorE cpuUsed =
     \<lparr>executorId = ''E'',
      currentUsage = [CPU \<mapsto> cpuUsed, Memory \<mapsto> 1],
      allocated = [CPU \<mapsto> 4, Memory \<mapsto> 4]\<rparr>"

text \<open>A report with this executor alone, on a host of the given CPU capacity.\<close>

definition reportE :: "real \<Rightarrow> real \<Rightarrow> ResourceUsageReport" where
  "reportE cpuUsed cpuCapacity =
     \<lparr>executors = [executorE cpuUsed],
      hostCapacity = [CPU \<mapsto> cpuCapacity, Memory \<mapsto> 10]\<rparr>"

text \<open>
  An observer constructed with the given fraction (or the default one) that has seen the
  executor using 1 CPU.
\<close>

definition observerE :: "real option \<Rightarrow> SlackResourceObserver" where
  "observerE fraction =
     snd (consume [] (reportE 1 10) (SlackResourceObserver_new fraction Map.empty))"

text \<open>
  A second executor: 2 CPUs allocated and 0.5 used, 1 unit of memory allocated and 3
  used.
\<close>

definition executorF :: ExecutorSnapshot where
  "executorF =
     \<lparr>executorId = ''F'',
      currentUsage = [CPU \<mapsto> 0.5, Memory \<mapsto> 3],
      allocated = [CPU \<mapsto> 2, Memory \<mapsto> 1]\<rparr>"



text \<open>A sample of the executor's CPU usage, and a filter that holds two of them.\<close>

definition sampleE :: "real \<Rightarrow> real \<Rightarrow> UsageSample" where
  "sampleE t v =
     \<lparr>sampleKind = CPU, sampleExecutorId = ''E'', sampleValue = v, sampleTime = t\<rparr>"

definition filterE :: MovingAverageFilter where
  "filterE = \<lparr>windowSize = 3, windows = [(CPU, ''E'') \<mapsto> [sampleE 10 1, sampleE 11 2]]\<rparr>"

section \<open>Properties of the double addition\<close>

lemma round_half_even_of_int: "round_half_even (real_of_int m) = m"
  by (simp add: round_half_even_def)

lemma round_half_even_below_half:
  assumes "0 \<le> d" "d < 1 / 2"
  shows "round_half_even (real_of_int m + d) = m"
proof -
  have "\<lfloor>real_of_int m + d\<rfloor> = m"
    using assms by (simp add: floor_eq_iff)
  then show ?thesis
    using assms by (simp add: round_half_even_def)
qed

lemma floor_log2_bounds:
  assumes "1 \<le> x" "x < 2 ^ 53"
  shows "0 \<le> \<lfloor>log 2 x\<rfloor>" "\<lfloor>log 2 x\<rfloor> \<le> 52"
proof -
  have "0 \<le> log 2 x" using assms by simp
  then show "0 \<le> \<lfloor>log 2 x\<rfloor>" by simp
  have "log 2 x < 53"
    using assms by (simp add: log_less_iff powr_realpow)
  then show "\<lfloor>log 2 x\<rfloor> \<le> 52"
    by (simp add: floor_le_iff)
qed

text \<open>An integer below \<open>2 ^ 53\<close> in magnitude is a double.\<close>

lemma round_double_int:
  assumes "\<bar>z\<bar> < 2 ^ 53"
  shows "round_double (real_of_int z) = real_of_int z"
proof (cases "z = 0")
  case True
  then show ?thesis by (simp add: round_double_def)
next
  case False
  let ?x = "real_of_int z"
  let ?e = "\<lfloor>log 2 \<bar>?x\<bar>\<rfloor>"
  have x1: "1 \<le> \<bar>?x\<bar>" using False by (simp flip: of_int_abs)
  have "real_of_int \<bar>z\<bar> < 2 ^ 53"
    using assms by (metis of_int_less_iff of_int_numeral of_int_power)
  then have x2: "\<bar>?x\<bar> < 2 ^ 53" by simp
  have e: "0 \<le> ?e" "?e \<le> 52"
    using floor_log2_bounds [OF x1 x2] by simp_all
  define k where "k = nat (52 - ?e)"
  have q: "double_quantum ?x = 1 / 2 ^ k"
    using e by (simp add: double_quantum_def k_def max_def power_int_def field_simps)
  have "?x / double_quantum ?x = real_of_int (z * 2 ^ k)"
    by (simp add: q)
  then have "round_half_even (?x / double_quantum ?x) = z * 2 ^ k"
    by (simp only: round_half_even_of_int)
  then show ?thesis
    using False by (simp add: round_double_def q)
qed

lemma double_add_int:
  "\<bar>a + b\<bar> < 2 ^ 53 \<Longrightarrow> double_add (real_of_int a) (real_of_int b) = real_of_int (a + b)"
  using round_double_int [of "a + b"] by (simp add: double_add_def)

text \<open>Adding \<open>2 ^ -30\<close> to the start timestamp rounds back to the start timestamp.\<close>

lemma double_add_absorbed: "double_add 34223425 (1 / 2 ^ 30) = 34223425"
proof -
  define x :: real where "x = 34223425 + 1 / 2 ^ 30"
  have x0: "x \<noteq> 0" "0 < x" by (simp_all add: x_def)
  have "\<lfloor>log 2 x\<rfloor> = 25"
    using x0 by (subst floor_log_eq_powr_iff)
      (simp_all add: powr_realpow [where n = 25, simplified] x_def)
  then have q: "double_quantum x = 1 / 2 ^ 27"
    using x0 by (simp add: double_quantum_def power_int_def power_divide)
  have "x / double_quantum x = real_of_int (34223425 * 2 ^ 27) + 1 / 8"
    unfolding q by (simp add: x_def)
  then have "round_half_even (x / double_quantum x) = 34223425 * 2 ^ 27"
    by (simp only: round_half_even_below_half [of "1 / 8", simplified])
  then have "round_double x = 34223425"
    using x0 by (simp add: round_double_def q)
  then show ?thesis
    by (simp add: double_add_def x_def)
qed

section \<open>Properties of the noise generator\<close>

lemma sint_iteration: "n < 2 ^ 31 \<Longrightarrow> sint (word_of_nat n :: int32) = int n"
  by (simp add: signed_of_nat signed_take_bit_int_eq_self)

lemma smod_2_even: "(k::int) smod 2 = 0 \<longleftrightarrow> even k"
  by (auto simp: signed_modulo_int_def sgn_if)

lemma iteration_even:
  "n < 2 ^ 31 \<Longrightarrow> (sint (word_of_nat n :: int32) smod 2 = 0) = even n"
  by (simp add: sint_iteration smod_2_even)

lemma sign_generate: "sign (snd (generate it g)) = - sign g"
  by (simp add: generate_def Let_def)

lemma noise_generate_odd:
  "sint it smod 2 \<noteq> 0 \<Longrightarrow> noise (snd (generate it g)) = noise g"
  by (simp add: generate_def Let_def)

lemma fst_generate:
  "fst (generate it g) =
     noise (snd (generate it g)) * real_of_int (sint (sign (snd (generate it g))))"
  by (simp add: generate_def Let_def)

lemma sign_drive: "sign (drive n g) = (if even n then sign g else - sign g)"
  by (induction n) (simp_all add: sign_generate)

lemma sign_new: "sign (SymetricNoiseGenerator_new m) = - 1"
  by (simp add: SymetricNoiseGenerator_new_def)

text \<open>An even call returns the negated noise level it has just reached.\<close>

lemma generated_even:
  assumes "even n" "0 < n"
  shows "generated n (SymetricNoiseGenerator_new m) =
           - noise (drive n (SymetricNoiseGenerator_new m))"
proof -
  obtain j where n: "n = Suc j" using assms(2) by (cases n) auto
  have "sign (drive n (SymetricNoiseGenerator_new m)) = - 1"
    using assms(1) by (simp add: sign_drive sign_new)
  then show ?thesis
    unfolding n generated.simps drive.simps fst_generate by simp
qed

text \<open>The odd call after it leaves the noise level alone and returns it as it is.\<close>

lemma generated_odd:
  assumes "even n" "Suc n < 2 ^ 31"
  shows "generated (Suc n) (SymetricNoiseGenerator_new m) =
           noise (drive n (SymetricNoiseGenerator_new m))"
proof -
  let ?g = "drive n (SymetricNoiseGenerator_new m)"
  let ?g' = "snd (generate (word_of_nat (Suc n)) ?g)"
  have odd: "sint (word_of_nat (Suc n) :: int32) smod 2 \<noteq> 0"
    using assms iteration_even [of "Suc n"] by simp
  have "sign ?g = - 1"
    using assms(1) by (simp add: sign_drive sign_new)
  then have s: "sign ?g' = 1"
    by (simp only: sign_generate) simp
  have n: "noise ?g' = noise ?g"
    by (rule noise_generate_odd [OF odd])
  have "generated (Suc n) (SymetricNoiseGenerator_new m) =
          noise ?g' * real_of_int (sint (sign ?g'))"
    by (simp only: generated.simps fst_generate)
  also have "\<dots> = noise ?g"
    by (simp only: s n) simp
  finally show ?thesis .
qed

lemma generated_pair:
  assumes "1 \<le> k" "2 * k + 1 < 2 ^ 31"
  shows "generated (2 * k + 1) (SymetricNoiseGenerator_new m) =
           - generated (2 * k) (SymetricNoiseGenerator_new m)"
  using generated_even [of "2 * k" m] generated_odd [of "2 * k" m] assms by simp

lemma generated_first: "generated 1 (SymetricNoiseGenerator_new m) = 0"
  using generated_odd [of 0 m] by (simp add: SymetricNoiseGenerator_new_def)

lemma generated_sum:
  "2 * k + 1 < 2 ^ 31 \<Longrightarrow>
   (\<Sum>j = 1..2 * k + 1. generated j (SymetricNoiseGenerator_new m)) = 0"
proof (induction k)
  case 0
  then show ?case using generated_first [of m] by simp
next
  case (Suc k)
  have "generated (2 * Suc k + 1) (SymetricNoiseGenerator_new m) =
          - generated (2 * Suc k) (SymetricNoiseGenerator_new m)"
    using Suc.prems by (intro generated_pair) simp_all
  moreover have "(\<Sum>j = 1..2 * k + 1. generated j (SymetricNoiseGenerator_new m)) = 0"
    using Suc by simp
  ultimately show ?case by simp
qed

text \<open>
  Claim C9. A fresh \<^verbatim>\<open>SymetricNoiseGenerator\<close> (any \<open>maxNoise\<close>) is driven with the
  iteration numbers 1, 2, 3, \<dots> (values of an \<^verbatim>\<open>int32_t\<close>). The first value is 0;
  the value returned at the odd iteration \<open>2k + 1\<close> is the exact negative of the value
  returned at the even iteration \<open>2k\<close> before it, so each such pair sums to 0, and so
  does the whole sequence up to the end of a pair.
\<close>

theorem symetric_noise_pairs_cancel:
  assumes "1 \<le> k" and "2 * k + 1 < 2 ^ 31"
  shows "generated 1 (SymetricNoiseGenerator_new m) = 0
       \<and> generated (2 * k + 1) (SymetricNoiseGenerator_new m) =
           - generated (2 * k) (SymetricNoiseGenerator_new m)
       \<and> generated (2 * k) (SymetricNoiseGenerator_new m)
           + generated (2 * k + 1) (SymetricNoiseGenerator_new m) = 0
       \<and> (\<Sum>j = 1..2 * k + 1. generated j (SymetricNoiseGenerator_new m)) = 0"
  using generated_first [of m] generated_pair [OF assms, of m] generated_sum [OF assms(2), of m]
  by simp

theorem symetric_noise_pairs_cancel_witness:
  "(1::nat) \<le> 3 \<and> (2 * 3 + 1 :: nat) < 2 ^ 31
   \<and> generated (2 * 3 + 1) (SymetricNoiseGenerator_new 5) =
       - generated (2 * 3) (SymetricNoiseGenerator_new 5)
   \<and> (\<Sum>j = 1..2 * 3 + 1. generated j (SymetricNoiseGenerator_new 5)) = 0"
  using symetric_noise_pairs_cancel [of 3 5] by simp

section \<open>Properties of the load generator\<close>

lemma pre_increment_done: "done_flag g \<Longrightarrow> pre_increment g = g"
  by (simp add: pre_increment_def)

lemma pre_increment_limit:
  "\<not> done_flag g \<Longrightarrow> iterations g <s iteration g + 1 \<Longrightarrow>
   pre_increment g = g\<lparr>iteration := iteration g + 1, done_flag := True\<rparr>"
  by (simp add: pre_increment_def Let_def)

lemma pre_increment_step:
  "\<not> done_flag g \<Longrightarrow> \<not> iterations g <s iteration g + 1 \<Longrightarrow>
   timestamp (i_sample (pre_increment g)) =
     double_add (timestamp (i_sample g)) (timeWindow g)
   \<and> \<not> done_flag (pre_increment g)"
  by (simp add: pre_increment_def Let_def split: prod.splits)

lemma timeWindow_pre_increment: "timeWindow (pre_increment g) = timeWindow g"
  by (simp add: pre_increment_def Let_def split: prod.splits)

lemma timeWindow_increments: "timeWindow (increments n g) = timeWindow g"
  by (induction n) (simp_all add: timeWindow_pre_increment)

lemma not_done_pre_increment:
  "\<not> done_flag (pre_increment g) \<Longrightarrow>
   \<not> done_flag g
   \<and> timestamp (i_sample (pre_increment g)) =
       double_add (timestamp (i_sample g)) (timeWindow g)"
  by (cases "done_flag g"; cases "iterations g <s iteration g + 1")
     (simp_all add: pre_increment_done pre_increment_limit pre_increment_step)

lemma not_done_increments:
  "\<not> done_flag (increments n g) \<Longrightarrow> m \<le> n \<Longrightarrow> \<not> done_flag (increments m g)"
proof (induction n)
  case 0
  then show ?case by simp
next
  case (Suc n)
  then show ?case
    using not_done_pre_increment [of "increments n g"] by (cases "m = Suc n") auto
qed

text \<open>
  While the generator is not done, whole-number timestamps advance by the whole-number
  time window exactly, as long as they stay below \<open>2 ^ 53\<close>.
\<close>

lemma increments_timestamp:
  assumes "timestamp (i_sample g) = real_of_int z" "timeWindow g = real_of_int w" "0 < w"
    and "\<bar>z\<bar> + int n * w < 2 ^ 53" "\<not> done_flag (increments n g)"
  shows "timestamp (i_sample (increments n g)) = real_of_int (z + int n * w)"
  using assms(4,5)
proof (induction n)
  case 0
  then show ?case by (simp add: assms(1))
next
  case (Suc n)
  have nd: "\<not> done_flag (increments n g)"
    using not_done_increments [OF Suc.prems(2), of n] by simp
  have "\<bar>z\<bar> + int n * w < 2 ^ 53"
    using Suc.prems(1) assms(3) by (simp add: algebra_simps)
  then have ih: "timestamp (i_sample (increments n g)) = real_of_int (z + int n * w)"
    using Suc.IH nd by simp
  have "\<bar>(z + int n * w) + w\<bar> \<le> \<bar>z\<bar> + int (Suc n) * w"
    using assms(3) by (simp add: algebra_simps abs_if)
  then have b: "\<bar>(z + int n * w) + w\<bar> < 2 ^ 53"
    using Suc.prems(1) by linarith
  have "timestamp (i_sample (increments (Suc n) g)) =
          double_add (real_of_int (z + int n * w)) (real_of_int w)"
    using not_done_pre_increment [of "increments n g"] Suc.prems(2)
    by (simp add: ih timeWindow_increments assms(2))
  also have "\<dots> = real_of_int ((z + int n * w) + w)"
    by (rule double_add_int [OF b])
  finally show ?case by (simp add: algebra_simps)
qed

text \<open>
  Claim C10, as stated, fails in two ways. At a generator that starts past its limit
  (\<^verbatim>\<open>LoadGenerator(f, noiseGen, 5, 3)\<close>), \<open>iteration\<close> exceeds \<open>iterations\<close> and
  \<open>timeWindow\<close> is positive, yet the increment changes the state: it advances
  \<open>iteration\<close> to 6 and sets \<open>done\<close>. And at a generator with the positive
  \<open>timeWindow\<close> of \<open>2\<close> to the power -30, an increment made before the limit is exceeded
  leaves the timestamp where it is: the sum rounds back to 34223425.
\<close>

theorem pre_increment_state_and_rounding:
  "0 < timeWindow (LoadGenerator_from id ZeroNoise 5 3)
   \<and> iterations (LoadGenerator_from id ZeroNoise 5 3)
        <s iteration (LoadGenerator_from id ZeroNoise 5 3)
   \<and> pre_increment (LoadGenerator_from id ZeroNoise 5 3) \<noteq> LoadGenerator_from id ZeroNoise 5 3
   \<and> iteration (pre_increment (LoadGenerator_from id ZeroNoise 5 3)) = 6
   \<and> \<not> done_flag (LoadGenerator_from id ZeroNoise 5 3)
   \<and> done_flag (pre_increment (LoadGenerator_from id ZeroNoise 5 3))
   \<and> 0 < timeWindow ((LoadGenerator_new id ZeroNoise 3)\<lparr>timeWindow := 1 / 2 ^ 30\<rparr>)
   \<and> \<not> done_flag (pre_increment ((LoadGenerator_new id ZeroNoise 3)\<lparr>timeWindow := 1 / 2 ^ 30\<rparr>))
   \<and> timestamp (i_sample (pre_increment
         ((LoadGenerator_new id ZeroNoise 3)\<lparr>timeWindow := 1 / 2 ^ 30\<rparr>))) =
       timestamp (i_sample ((LoadGenerator_new id ZeroNoise 3)\<lparr>timeWindow := 1 / 2 ^ 30\<rparr>))"
proof -
  let ?s = "(LoadGenerator_new id ZeroNoise 3)\<lparr>timeWindow := 1 / 2 ^ 30\<rparr>"
  have s: "\<not> done_flag ?s" "\<not> iterations ?s <s iteration ?s + 1"
    "timestamp (i_sample ?s) = 34223425" "timeWindow ?s = 1 / 2 ^ 30"
    by (simp_all add: LoadGenerator_new_def LoadGenerator_from_def DEFAULT_START_TIMESTAMP_def
        word_sless_alt)
  note st = pre_increment_step [OF s(1,2)]
  have t: "timestamp (i_sample (pre_increment ?s)) = double_add 34223425 (1 / 2 ^ 30)"
    using st unfolding s(3,4) by blast
  have nd: "\<not> done_flag (pre_increment ?s)"
    using st by blast
  have "timestamp (i_sample (pre_increment ?s)) = timestamp (i_sample ?s)"
    unfolding t s(3) by (rule double_add_absorbed)
  note r = this nd
  have d: "0 < timeWindow (LoadGenerator_from id ZeroNoise 5 3)
   \<and> iterations (LoadGenerator_from id ZeroNoise 5 3)
        <s iteration (LoadGenerator_from id ZeroNoise 5 3)
   \<and> pre_increment (LoadGenerator_from id ZeroNoise 5 3) \<noteq> LoadGenerator_from id ZeroNoise 5 3
   \<and> iteration (pre_increment (LoadGenerator_from id ZeroNoise 5 3)) = 6
   \<and> \<not> done_flag (LoadGenerator_from id ZeroNoise 5 3)
   \<and> done_flag (pre_increment (LoadGenerator_from id ZeroNoise 5 3))"
    by (simp add: LoadGenerator_from_def pre_increment_def Let_def DEFAULT_TIME_WINDOW_def
        word_sless_alt)
  have "0 < timeWindow ?s" by (simp add: s(4))
  then show ?thesis
    using d r by (intro conjI) simp_all
qed

text \<open>
  Claim C10, amended. Take a generator whose \<open>timeWindow\<close> is a positive whole number
  (every constructor sets it to 1) and whose timestamp is a whole number, and let the
  timestamps of \<open>n\<close> increments stay below \<open>2\<close> to the power 53, where whole numbers
  are added without rounding. A pre-increment made while \<open>done\<close> is not set and that
  does not take \<open>iteration\<close> past \<open>iterations\<close> sets the timestamp to the rounded sum
  of timestamp and \<open>timeWindow\<close>, which here is the timestamp increased by exactly
  \<open>timeWindow\<close>; the pre-increment that takes \<open>iteration\<close> past \<open>iterations\<close>
  advances \<open>iteration\<close>, sets \<open>done\<close> and changes nothing else, the sample included;
  once \<open>done\<close> is set the increment leaves the whole state unchanged. Hence the
  timestamps of the samples produced are strictly increasing: the sample after \<open>n\<close>
  increments, when the generator is not done then, is later than the sample after any
  smaller number of increments, by \<open>timeWindow\<close> for each increment.
\<close>

theorem pre_increment_timestamps:
  assumes "timestamp (i_sample g) = real_of_int z" and "timeWindow g = real_of_int w"
    and "0 < w" and "\<bar>z\<bar> + int n * w < 2 ^ 53"
  shows "(\<not> done_flag g \<and> \<not> iterations g <s iteration g + 1 \<longrightarrow>
            timestamp (i_sample (pre_increment g)) =
              double_add (timestamp (i_sample g)) (timeWindow g))
       \<and> (\<not> done_flag g \<and> \<not> iterations g <s iteration g + 1 \<and> 0 < n \<longrightarrow>
            timestamp (i_sample (pre_increment g)) = timestamp (i_sample g) + timeWindow g)
       \<and> (\<not> done_flag g \<and> iterations g <s iteration g + 1 \<longrightarrow>
            pre_increment g = g\<lparr>iteration := iteration g + 1, done_flag := True\<rparr>)
       \<and> (done_flag g \<longrightarrow> pre_increment g = g)
       \<and> (\<forall>m. m < n \<and> \<not> done_flag (increments n g) \<longrightarrow>
            timestamp (i_sample (increments m g)) < timestamp (i_sample (increments n g))
            \<and> timestamp (i_sample (increments n g)) =
                timestamp (i_sample g) + real n * timeWindow g)"
proof -
  have one: "timestamp (i_sample (pre_increment g)) = timestamp (i_sample g) + timeWindow g"
    if "\<not> done_flag g" "\<not> iterations g <s iteration g + 1" "0 < n"
  proof -
    have "\<bar>z\<bar> + w \<le> \<bar>z\<bar> + int n * w"
      using that(3) assms(3) by (simp add: mult_le_cancel_right1)
    then have "\<bar>z + w\<bar> < 2 ^ 53"
      using assms(3,4) by linarith
    then show ?thesis
      using pre_increment_step [OF that(1,2)] by (simp add: assms(1,2) double_add_int)
  qed
  have many: "timestamp (i_sample (increments m g)) < timestamp (i_sample (increments n g))
      \<and> timestamp (i_sample (increments n g)) = timestamp (i_sample g) + real n * timeWindow g"
    if "m < n" "\<not> done_flag (increments n g)" for m
  proof -
    have ndm: "\<not> done_flag (increments m g)"
      using not_done_increments [OF that(2), of m] that(1) by simp
    have "int m * w < int n * w"
      using that(1) assms(3) by simp
    then have bm: "\<bar>z\<bar> + int m * w < 2 ^ 53"
      using assms(4) by linarith
    have tn: "timestamp (i_sample (increments n g)) = real_of_int (z + int n * w)"
      by (rule increments_timestamp [OF assms(1,2,3,4) that(2)])
    have tm: "timestamp (i_sample (increments m g)) = real_of_int (z + int m * w)"
      by (rule increments_timestamp [OF assms(1,2,3) bm ndm])
    have "z + int m * w < z + int n * w"
      using \<open>int m * w < int n * w\<close> by simp
    then have lt: "real_of_int (z + int m * w) < real_of_int (z + int n * w)"
      by (simp only: of_int_less_iff)
    have eq: "real_of_int (z + int n * w) = real_of_int z + real n * real_of_int w"
      by simp
    show ?thesis
      unfolding tn tm assms(1,2) using lt eq by simp
  qed
  have c1: "\<not> done_flag g \<and> \<not> iterations g <s iteration g + 1 \<longrightarrow>
      timestamp (i_sample (pre_increment g)) =
        double_add (timestamp (i_sample g)) (timeWindow g)"
    using pre_increment_step by blast
  have c2: "\<not> done_flag g \<and> \<not> iterations g <s iteration g + 1 \<and> 0 < n \<longrightarrow>
      timestamp (i_sample (pre_increment g)) = timestamp (i_sample g) + timeWindow g"
    using one by blast
  have c3: "\<not> done_flag g \<and> iterations g <s iteration g + 1 \<longrightarrow>
      pre_increment g = g\<lparr>iteration := iteration g + 1, done_flag := True\<rparr>"
    using pre_increment_limit by blast
  have c4: "done_flag g \<longrightarrow> pre_increment g = g"
    using pre_increment_done by blast
  have c5: "\<forall>m. m < n \<and> \<not> done_flag (increments n g) \<longrightarrow>
      timestamp (i_sample (increments m g)) < timestamp (i_sample (increments n g))
      \<and> timestamp (i_sample (increments n g)) =
          timestamp (i_sample g) + real n * timeWindow g"
    using many by blast
  show ?thesis
    using c1 c2 c3 c4 c5 by (intro conjI)
qed

theorem pre_increment_timestamps_witness:
  "timestamp (i_sample (LoadGenerator_new id ZeroNoise 3)) = real_of_int 34223425
   \<and> timeWindow (LoadGenerator_new id ZeroNoise 3) = real_of_int 1
   \<and> (0::int) < 1 \<and> \<bar>34223425\<bar> + int 2 * 1 < (2 ^ 53 :: int)
   \<and> \<not> done_flag (LoadGenerator_new id ZeroNoise 3)
   \<and> \<not> iterations (LoadGenerator_new id ZeroNoise 3)
          <s iteration (LoadGenerator_new id ZeroNoise 3) + 1
   \<and> (0::nat) < 2
   \<and> timestamp (i_sample (pre_increment (LoadGenerator_new id ZeroNoise 3))) = 34223426
   \<and> \<not> done_flag (LoadGenerator_from id ZeroNoise 3 3)
   \<and> iterations (LoadGenerator_from id ZeroNoise 3 3)
        <s iteration (LoadGenerator_from id ZeroNoise 3 3) + 1
   \<and> pre_increment (LoadGenerator_from id ZeroNoise 3 3) =
        (LoadGenerator_from id ZeroNoise 3 3)\<lparr>iteration := 4, done_flag := True\<rparr>
   \<and> done_flag (pre_increment (LoadGenerator_from id ZeroNoise 3 3))
   \<and> pre_increment (pre_increment (LoadGenerator_from id ZeroNoise 3 3)) =
        pre_increment (LoadGenerator_from id ZeroNoise 3 3)
   \<and> (1::nat) < 2
   \<and> \<not> done_flag (increments 2 (LoadGenerator_new id ZeroNoise 3))
   \<and> timestamp (i_sample (increments 1 (LoadGenerator_new id ZeroNoise 3)))
        < timestamp (i_sample (increments 2 (LoadGenerator_new id ZeroNoise 3)))
   \<and> timestamp (i_sample (increments 2 (LoadGenerator_new id ZeroNoise 3))) = 34223427"
proof -
  let ?g = "LoadGenerator_new id ZeroNoise 3"
  let ?h = "LoadGenerator_from id ZeroNoise 3 3"
  have g: "timestamp (i_sample ?g) = real_of_int 34223425" "timeWindow ?g = real_of_int 1"
    "\<not> done_flag ?g" "\<not> iterations ?g <s iteration ?g + 1"
    by (simp_all add: LoadGenerator_new_def LoadGenerator_from_def DEFAULT_TIME_WINDOW_def
        DEFAULT_START_TIMESTAMP_def word_sless_alt)
  have h: "timestamp (i_sample ?h) = real_of_int 34223425" "timeWindow ?h = real_of_int 1"
    "\<not> done_flag ?h" "iterations ?h <s iteration ?h + 1" "iteration ?h + 1 = 4"
    by (simp_all add: LoadGenerator_from_def DEFAULT_TIME_WINDOW_def
        DEFAULT_START_TIMESTAMP_def word_sless_alt)
  have b: "(0::int) < 1" "\<bar>34223425\<bar> + int 2 * 1 < (2 ^ 53 :: int)"
    by simp_all
  note cg = pre_increment_timestamps [OF g(1,2) b]
  note ch = pre_increment_timestamps [OF h(1,2) b]
  have s1: "timestamp (i_sample (pre_increment ?g)) = timestamp (i_sample ?g) + timeWindow ?g"
    using cg g(3,4) by simp
  have s2: "pre_increment ?h = ?h\<lparr>iteration := iteration ?h + 1, done_flag := True\<rparr>"
    using ch h(3,4) by blast
  have dh: "done_flag (pre_increment ?h)"
    by (simp add: s2)
  have h': "timestamp (i_sample (pre_increment ?h)) = real_of_int 34223425"
    "timeWindow (pre_increment ?h) = real_of_int 1"
    unfolding s2 using h(1,2) by simp_all
  have s3: "pre_increment (pre_increment ?h) = pre_increment ?h"
    using pre_increment_timestamps [OF h' b] dh by blast
  have d: "\<not> done_flag (increments 2 ?g)"
    by (simp add: numeral_2_eq_2 LoadGenerator_new_def LoadGenerator_from_def
        pre_increment_def Let_def ZeroNoise_generate_def word_sless_alt)
  have "(1::nat) < 2" by simp
  then have s4: "timestamp (i_sample (increments 1 ?g)) < timestamp (i_sample (increments 2 ?g))"
    "timestamp (i_sample (increments 2 ?g)) = timestamp (i_sample ?g) + real 2 * timeWindow ?g"
    using cg d by blast+
  show ?thesis
    using g h b d dh s1 s2 s3 s4 by simp
qed

section \<open>Properties of the slack resource observer\<close>

text \<open>
  Claim C7. \<^verbatim>\<open>getDefaultRole\<close> returns the value of \<^verbatim>\<open>MESOS_DEFAULT_ROLE\<close> when
  the environment sets it, and the string \<open>*\<close> when it does not; the observer's
  \<open>default_role\<close> is resolved this way.
\<close>

theorem getDefaultRole_override_or_star:
  "(env ''MESOS_DEFAULT_ROLE'' = Some v \<longrightarrow> getDefaultRole env = v)
   \<and> (env ''MESOS_DEFAULT_ROLE'' = None \<longrightarrow> getDefaultRole env = ''*'')
   \<and> default_role (SlackResourceObserver_new fraction env) = getDefaultRole env"
  by (simp add: getDefaultRole_def SlackResourceObserver_new_def)

theorem getDefaultRole_override_or_star_witness:
  "[''MESOS_DEFAULT_ROLE'' \<mapsto> ''batch''] ''MESOS_DEFAULT_ROLE'' = Some ''batch''
   \<and> getDefaultRole [''MESOS_DEFAULT_ROLE'' \<mapsto> ''batch''] = ''batch''
   \<and> [''HOME'' \<mapsto> ''/root''] ''MESOS_DEFAULT_ROLE'' = None
   \<and> getDefaultRole [''HOME'' \<mapsto> ''/root''] = ''*''"
  using getDefaultRole_override_or_star [of "[''MESOS_DEFAULT_ROLE'' \<mapsto> ''batch'']" "''batch''"]
    getDefaultRole_override_or_star [of "[''HOME'' \<mapsto> ''/root'']"]
  by simp

text \<open>
  Claim C8. An observer constructed without an explicit oversubscription fraction uses
  \<^verbatim>\<open>DEFAULT_MAX_OVERSUBSCRIPTION_FRACTION\<close>, which is 0.8.
\<close>

theorem default_oversubscription_fraction:
  "maxOversubscriptionFraction (SlackResourceObserver_new None env) = 0.8"
  by (simp add: SlackResourceObserver_new_def DEFAULT_MAX_OVERSUBSCRIPTION_FRACTION_def)

lemma SLACK_EPSILON_pos: "0 < SLACK_EPSILON"
  by (simp add: SLACK_EPSILON_def)


lemma contribution_nonneg: "0 \<le> contribution flags kind prev current"
  by (simp add: contribution_def split: option.splits)

lemma contribution_over:
  "allocated current kind = Some a \<Longrightarrow> currentUsage current kind = Some u \<Longrightarrow> a < u
   \<Longrightarrow> contribution flags kind prev current = 0"
  by (simp add: contribution_def CalculateSlack_def)


lemma rawShares_nonneg: "p \<in> set (rawShares previous flags kind es) \<Longrightarrow> 0 \<le> snd p"
  by (induction es) (auto simp: contribution_nonneg split: option.splits)




lemma emitSlack_value:
  "est \<in> emitSlack kind v \<Longrightarrow>
   estimate est = v \<and> SLACK_EPSILON \<le> v \<and> resourceKind est = kind \<and> isRevocable est"
  by (auto simp: emitSlack_def split: if_splits)

lemma estimateKind_capacity:
  "hostCapacity usage kind = Some capacity \<Longrightarrow>
   estimateKind flags usage obs kind =
     Inr (emitSlack kind (cappedTotal (slackCap obs capacity) (kindShares flags kind usage obs)))"
  by (simp add: estimateKind_def)

lemma consume_estimateKind: "fst (consume flags usage obs) = estimateKind flags usage obs CPU"
  by (simp add: consume_def)

text \<open>Whatever is emitted is the capped total of a host of known capacity.\<close>

lemma estimateKind_estimate:
  assumes "estimateKind flags usage obs kind = Inr out" "est \<in> out"
  shows "\<exists>capacity. hostCapacity usage kind = Some capacity
           \<and> estimate est = cappedTotal (slackCap obs capacity) (kindShares flags kind usage obs)
           \<and> SLACK_EPSILON \<le> estimate est \<and> resourceKind est = kind \<and> isRevocable est"
proof (cases "hostCapacity usage kind")
  case None
  then show ?thesis
    using assms by (auto simp: estimateKind_def split: if_splits)
next
  case (Some capacity)
  then have "est \<in> emitSlack kind
      (cappedTotal (slackCap obs capacity) (kindShares flags kind usage obs))"
    using assms by (auto simp: estimateKind_def)
  then show ?thesis
    using Some emitSlack_value by auto
qed









subsection \<open>The example inputs, evaluated\<close>

lemma observerE_simps:
  "previousSamples (observerE fraction) = [''E'' \<mapsto> executorE 1]"
  "maxOversubscriptionFraction (observerE None) = 0.8"
  "maxOversubscriptionFraction (observerE (Some f)) = f"
  by (simp_all add: observerE_def consume_def snapshotsOf_def reportE_def
      SlackResourceObserver_new_def DEFAULT_MAX_OVERSUBSCRIPTION_FRACTION_def executorE_def)

lemma executorE_simps:
  "executorId (executorE u) = ''E''"
  "allocated (executorE u) CPU = Some 4"
  "currentUsage (executorE u) CPU = Some u"
  "allocated (executorE u) Memory = Some 4"
  "currentUsage (executorE u) Memory = Some 1"
  by (simp_all add: executorE_def)

lemma executorF_simps:
  "executorId executorF = ''F''"
  "allocated executorF CPU = Some 2"
  "currentUsage executorF CPU = Some 0.5"
  "allocated executorF Memory = Some 1"
  "currentUsage executorF Memory = Some 3"
  by (simp_all add: executorF_def)

lemma reportE_simps:
  "executors (reportE u c) = [executorE u]"
  "hostCapacity (reportE u c) CPU = Some c"
  "hostCapacity (reportE u c) Memory = Some 10"
  by (simp_all add: reportE_def)



lemma contribution_executorE:
  "contribution [] CPU p (executorE u) = max 0 (4 - u)"
  "contribution [] Memory p (executorE u) = 3"
  by (simp_all add: contribution_def CalculateSlack_def severelyContended_def executorE_simps)


lemma sharesOf_reportE:
  "sharesOf [] (reportE u c) (observerE fraction) = [(''E'', max 0 (4 - u))]"
  by (simp add: sharesOf_def kindShares_def reportE_simps observerE_simps executorE_simps
      contribution_executorE)

lemma kindShares_Memory_reportE:
  "kindShares [] Memory (reportE u c) (observerE fraction) = [(''E'', 3)]"
  by (simp add: kindShares_def reportE_simps observerE_simps executorE_simps
      contribution_executorE)


lemma consume_reportE:
  "fst (consume [] (reportE u c) (observerE fraction)) =
     Inr (emitSlack CPU (cappedTotal (slackCap (observerE fraction) c) [(''E'', max 0 (4 - u))]))"
  using estimateKind_capacity [OF reportE_simps(2), of "[]" u c "observerE fraction"]
  by (simp add: consume_estimateKind sharesOf_reportE [unfolded sharesOf_def])

text \<open>The scenario of the spec: raw slack 2.5, cap 8, the estimate 2.5 is emitted.\<close>

lemma consume_scenario:
  "fst (consume [] (reportE 1.5 10) (observerE None)) =
     Inr {\<lparr>resourceKind = CPU, estimate = 2.5, isRevocable = True\<rparr>}"
  by (simp add: consume_reportE slackCap_def observerE_simps cappedTotal_def scaleShares_def
      totalSlack_def emitSlack_def SLACK_EPSILON_def)

lemma memory_estimate_reportE:
  "estimateKind [] (reportE 1.5 10) (observerE None) Memory =
     Inr {\<lparr>resourceKind = Memory, estimate = 3, isRevocable = True\<rparr>}"
  by (simp add: estimateKind_capacity [OF reportE_simps(3)] kindShares_Memory_reportE
      slackCap_def observerE_simps cappedTotal_def scaleShares_def totalSlack_def emitSlack_def
      SLACK_EPSILON_def)

subsection \<open>Claims about the estimator\<close>

text \<open>
  Claim C1. For every pair of snapshots (previous, current) and every resource kind, the
  contribution of the executor to the slack of the kind is never negative; when the
  current usage of the kind exceeds its allocation, the contribution is exactly 0; every
  share of a report is non-negative, and every estimate emitted has a value of at
  least 0.
\<close>

theorem slack_contribution_never_negative:
  "0 \<le> contribution flags kind prev current
   \<and> (\<forall>a u. allocated current kind = Some a \<and> currentUsage current kind = Some u \<and> a < u
        \<longrightarrow> contribution flags kind prev current = 0)
   \<and> (\<forall>p \<in> set (kindShares flags kind usage obs). 0 \<le> snd p)
   \<and> (\<forall>out est. estimateKind flags usage obs kind = Inr out \<and> est \<in> out
        \<longrightarrow> 0 \<le> estimate est)
   \<and> (\<forall>out est. fst (consume flags usage obs) = Inr out \<and> est \<in> out \<longrightarrow> 0 \<le> estimate est)"
proof -
  have e: "0 \<le> estimate est"
    if "estimateKind flags usage obs k = Inr out" "est \<in> out" for out est k
    using estimateKind_estimate [OF that] SLACK_EPSILON_pos by auto
  have c1: "\<forall>a u. allocated current kind = Some a \<and> currentUsage current kind = Some u \<and> a < u
      \<longrightarrow> contribution flags kind prev current = 0"
    using contribution_over by blast
  have c2: "\<forall>p \<in> set (kindShares flags kind usage obs). 0 \<le> snd p"
    using rawShares_nonneg by (auto simp: kindShares_def)
  have c3: "\<forall>out est. estimateKind flags usage obs kind = Inr out \<and> est \<in> out
      \<longrightarrow> 0 \<le> estimate est"
    using e by blast
  have c4: "\<forall>out est. fst (consume flags usage obs) = Inr out \<and> est \<in> out
      \<longrightarrow> 0 \<le> estimate est"
    using e by (auto simp: consume_estimateKind)
  show ?thesis
    using contribution_nonneg c1 c2 c3 c4 by (intro conjI)
qed

theorem slack_contribution_never_negative_witness:
  "allocated executorF Memory = Some 1 \<and> currentUsage executorF Memory = Some 3 \<and> (1::real) < 3
   \<and> contribution [] Memory executorF executorF = 0
   \<and> allocated (executorE 5) CPU = Some 4 \<and> currentUsage (executorE 5) CPU = Some 5
   \<and> (4::real) < 5
   \<and> contribution [] CPU (executorE 1) (executorE 5) = 0
   \<and> (''E'', 2.5) \<in> set (kindShares [] CPU (reportE 1.5 10) (observerE None))
   \<and> (0::real) \<le> snd (''E'', 2.5::real)
   \<and> estimateKind [] (reportE 1.5 10) (observerE None) Memory =
        Inr {\<lparr>resourceKind = Memory, estimate = 3, isRevocable = True\<rparr>}
   \<and> (0::real) \<le> estimate \<lparr>resourceKind = Memory, estimate = 3, isRevocable = True\<rparr>
   \<and> fst (consume [] (reportE 1.5 10) (observerE None)) =
        Inr {\<lparr>resourceKind = CPU, estimate = 2.5, isRevocable = True\<rparr>}
   \<and> (0::real) \<le> estimate \<lparr>resourceKind = CPU, estimate = 2.5, isRevocable = True\<rparr>"
proof -
  note m = slack_contribution_never_negative
    [of "[]" Memory executorF executorF "reportE 1.5 10" "observerE None"]
  note c = slack_contribution_never_negative
    [of "[]" CPU "executorE 1" "executorE 5" "reportE 1.5 10" "observerE None"]
  have f: "allocated executorF Memory = Some 1" "currentUsage executorF Memory = Some 3"
    by (simp_all add: executorF_simps)
  have zf: "contribution [] Memory executorF executorF = 0"
    using m f by force
  have e: "allocated (executorE 5) CPU = Some 4" "currentUsage (executorE 5) CPU = Some 5"
    by (simp_all add: executorE_simps)
  have ze: "contribution [] CPU (executorE 1) (executorE 5) = 0"
    using c e by force
  have sh: "(''E'', 2.5) \<in> set (kindShares [] CPU (reportE 1.5 10) (observerE None))"
    using sharesOf_reportE [of "1.5" 10 None] by (simp add: sharesOf_def)
  then have s: "(0::real) \<le> snd (''E'', 2.5::real)"
    using c by blast
  have em: "(0::real) \<le> estimate \<lparr>resourceKind = Memory, estimate = 3, isRevocable = True\<rparr>"
    using m memory_estimate_reportE by blast
  have ec: "(0::real) \<le> estimate \<lparr>resourceKind = CPU, estimate = 2.5, isRevocable = True\<rparr>"
    using c consume_scenario by blast
  show ?thesis
    using f zf e ze sh s memory_estimate_reportE em consume_scenario ec by simp
qed






text \<open>
  Claim C4. \<open>SLACK_EPSILON\<close> is 0.001; a final total strictly below it is omitted from
  the output, which is then empty, and no estimate emitted is below it. In particular
  a total of 0.0005 is not emitted.
\<close>

theorem slack_below_epsilon_suppressed:
  "SLACK_EPSILON = 0.001
   \<and> (hostCapacity usage CPU = Some capacity
        \<and> cappedTotal (slackCap obs capacity) (sharesOf flags usage obs) < SLACK_EPSILON
        \<longrightarrow> fst (consume flags usage obs) = Inr {})
   \<and> (\<forall>out est. fst (consume flags usage obs) = Inr out \<and> est \<in> out
        \<longrightarrow> SLACK_EPSILON \<le> estimate est)"
proof -
  have "SLACK_EPSILON \<le> estimate est"
    if "fst (consume flags usage obs) = Inr out" "est \<in> out" for out est
    using estimateKind_estimate [of flags usage obs CPU out est] that
    by (auto simp: consume_estimateKind)
  then show ?thesis
    by (auto simp: consume_estimateKind estimateKind_capacity sharesOf_def emitSlack_def)
       (simp add: SLACK_EPSILON_def)
qed

theorem slack_below_epsilon_suppressed_witness:
  "hostCapacity (reportE 3.9995 10) CPU = Some 10
   \<and> cappedTotal (slackCap (observerE None) 10) (sharesOf [] (reportE 3.9995 10) (observerE None))
       = 0.0005
   \<and> (0.0005::real) < SLACK_EPSILON
   \<and> fst (consume [] (reportE 3.9995 10) (observerE None)) = Inr {}
   \<and> fst (consume [] (reportE 1.5 10) (observerE None)) =
        Inr {\<lparr>resourceKind = CPU, estimate = 2.5, isRevocable = True\<rparr>}
   \<and> SLACK_EPSILON \<le> estimate \<lparr>resourceKind = CPU, estimate = 2.5, isRevocable = True\<rparr>"
proof -
  have h: "hostCapacity (reportE 3.9995 10) CPU = Some 10"
    by (simp add: reportE_simps)
  have t: "cappedTotal (slackCap (observerE None) 10)
             (sharesOf [] (reportE 3.9995 10) (observerE None)) = 0.0005"
    by (simp add: sharesOf_reportE slackCap_def observerE_simps cappedTotal_def
        scaleShares_def totalSlack_def)
  have l: "(0.0005::real) < SLACK_EPSILON"
    by (simp add: SLACK_EPSILON_def)
  have n: "fst (consume [] (reportE 3.9995 10) (observerE None)) = Inr {}"
    using slack_below_epsilon_suppressed
      [of "reportE 3.9995 10" 10 "observerE None" "[]"] h t l
    by simp
  have "SLACK_EPSILON \<le> estimate \<lparr>resourceKind = CPU, estimate = 2.5, isRevocable = True\<rparr>"
    using slack_below_epsilon_suppressed [of "reportE 1.5 10" _ "observerE None" "[]"]
      consume_scenario
    by blast
  then show ?thesis
    using h t l n consume_scenario by simp
qed

subsection \<open>Claims about the moving average filter\<close>

text \<open>
  Claim C5. A sample whose timestamp is strictly less than that of the most recent sample
  in the window of its (resource kind, executor id) key makes \<open>consume\<close> return
  \<open>OutOfOrderSample\<close> and leaves the filter, and so the window, unchanged.
\<close>

theorem out_of_order_sample_rejected:
  assumes "windows f (sampleKind s, sampleExecutorId s) = Some w"
    and "w \<noteq> []"
    and "sampleTime s < sampleTime (last w)"
  shows "filterConsume s f = (Inl OutOfOrderSample, f)"
  using assms by (simp add: filterConsume_def windowOf_def)

theorem out_of_order_sample_rejected_witness:
  "windows filterE (sampleKind (sampleE 5 7), sampleExecutorId (sampleE 5 7)) =
     Some [sampleE 10 1, sampleE 11 2]
   \<and> [sampleE 10 1, sampleE 11 2] \<noteq> []
   \<and> sampleTime (sampleE 5 7) < sampleTime (last [sampleE 10 1, sampleE 11 2])
   \<and> filterConsume (sampleE 5 7) filterE = (Inl OutOfOrderSample, filterE)"
proof -
  have w: "windows filterE (sampleKind (sampleE 5 7), sampleExecutorId (sampleE 5 7)) =
             Some [sampleE 10 1, sampleE 11 2]"
    by (simp add: filterE_def sampleE_def)
  have t: "sampleTime (sampleE 5 7) < sampleTime (last [sampleE 10 1, sampleE 11 2])"
    by (simp add: sampleE_def)
  show ?thesis
    using out_of_order_sample_rejected [OF w _ t] w t by simp
qed

end
